theory Spec2Isabelle
  imports Main "HOL-Library.Char_ord" "HOL-Library.List_Lexorder" "HOL-Library.AList"
begin

section \<open>Python exceptions\<close>

text \<open>
  Every exception that the program or the pandas calls it makes can raise is a
  constructor of \<open>error\<close>; a fallible function returns \<open>error + 'a\<close> with \<open>Inl\<close>
  the exception. The argument is the offending string where the exception carries one.
\<close>

datatype error =
    ConversionError string
  | LabelNotUnique string
  | MergeError string
  | DateParseError string
  | KeyError string
  | IndexError
  | AttributeError
  | TypeError
  | IntParseError string
  | InvalidGraphType
  | RequestError
  | Unsupported string

text \<open>
  \<open>ConversionError\<close> is the ValueError of \<open>pd.to_numeric\<close> (unable to parse a string),
  \<open>LabelNotUnique\<close> the ValueError of pandas for a column label that stands for more
  than one column, \<open>MergeError\<close> the error of \<open>merge\<close> when its suffixes produce a
  duplicate column, \<open>DateParseError\<close> the ValueError family of \<open>pd.to_datetime\<close>,
  \<open>IntParseError\<close> the ValueError of \<open>int\<close>,
  \<open>InvalidGraphType\<close> the ValueError of \<open>create_graph\<close>, and \<open>RequestError\<close> a
  failure of the request to the BLS service. \<open>Unsupported\<close> is no exception of the
  program: it marks the one situation this embedding leaves out (see \<open>set_index\<close>).
\<close>

definition ebind :: "error + 'a \<Rightarrow> ('a \<Rightarrow> error + 'b) \<Rightarrow> error + 'b" where
  "ebind m f = (case m of Inl e \<Rightarrow> Inl e | Inr x \<Rightarrow> f x)"

text \<open>A column operation applies a fallible function to every element in order and
  raises at the first element that fails.\<close>

fun traverse :: "('a \<Rightarrow> error + 'b) \<Rightarrow> 'a list \<Rightarrow> error + 'b list" where
  "traverse f [] = Inr []"
| "traverse f (x # xs) =
     (case f x of
        Inl e \<Rightarrow> Inl e
      | Inr y \<Rightarrow> (case traverse f xs of Inl e \<Rightarrow> Inl e | Inr ys \<Rightarrow> Inr (y # ys)))"

section \<open>Short location names: \<open>re.split('--|,', loc)[0]\<close>\<close>

text \<open>
  \<open>cons_piece c ps\<close> puts the character \<open>c\<close> in front of the first piece of a split.
\<close>

fun cons_piece :: "char \<Rightarrow> string list \<Rightarrow> string list" where
  "cons_piece c [] = [[c]]"
| "cons_piece c (p # ps) = (c # p) # ps"

text \<open>
  \<open>re.split('--|,', s)\<close>: the string is scanned from the left; at each position the
  alternative \<open>--\<close> is tried before \<open>,\<close>; a match ends the current piece and the scan
  goes on behind it.
\<close>

fun re_split :: "string \<Rightarrow> string list" where
  "re_split [] = [[]]"
| "re_split [c] = (if c = CHR '','' then [[], []] else [[c]])"
| "re_split (c # d # cs) =
     (if c = CHR ''-'' \<and> d = CHR ''-'' then [] # re_split cs
      else if c = CHR '','' then [] # re_split (d # cs)
      else cons_piece c (re_split (d # cs)))"

text \<open>The subscript \<open>[0]\<close> of a Python list raises IndexError on the empty list.\<close>

definition short_name :: "string \<Rightarrow> error + string" where
  "short_name loc = (case re_split loc of [] \<Rightarrow> Inl IndexError | p # _ \<Rightarrow> Inr p)"


section \<open>The payloads and \<open>pd.to_numeric\<close>\<close>

text \<open>
  A payload of the BLS service is a dictionary with the keys \<open>seriesID\<close> and \<open>data\<close>;
  every observation of \<open>data\<close> carries \<open>year\<close>, \<open>period\<close> and \<open>value\<close> (the other
  keys are dropped by \<open>series_df[cols + ['value']]\<close>). Year and period are JSON strings,
  as the service sends them; the value is a JSON string, number or null. The type \<open>'n\<close>
  is the type of the numbers: the program never calculates with them.
\<close>

datatype 'n jvalue = JString string | JNumber 'n | JNull

record 'n observation =
  obs_year :: string
  obs_period :: string
  obs_value :: "'n jvalue"

record 'n series =
  seriesID :: string
  data :: "'n observation list"

text \<open>
  A cell of a table is \<open>Some\<close> number, or \<open>None\<close> for pandas' NaN, which is also what an
  outer merge puts where a series has no observation.

  \<open>pd.to_numeric\<close> leaves numbers as they are, turns null and the empty string into
  NaN, and hands every other string to its parser. The parser is a parameter
  \<open>parse\<close>: \<open>None\<close> when it rejects the string, \<open>Some None\<close> for a NaN literal and
  \<open>Some (Some x)\<close> for the number \<open>x\<close>.
\<close>

definition to_numeric1 :: "(string \<Rightarrow> 'n option option) \<Rightarrow> 'n jvalue \<Rightarrow> error + 'n option" where
  "to_numeric1 parse v =
     (case v of
        JNull \<Rightarrow> Inr None
      | JNumber x \<Rightarrow> Inr (Some x)
      | JString s \<Rightarrow>
          (if s = [] then Inr None
           else (case parse s of None \<Rightarrow> Inl (ConversionError s) | Some c \<Rightarrow> Inr c)))"

definition to_numeric :: "(string \<Rightarrow> 'n option option) \<Rightarrow> 'n jvalue list \<Rightarrow> error + 'n option list" where
  "to_numeric parse vs = traverse (to_numeric1 parse) vs"

section \<open>Tables\<close>

text \<open>
  A table has the labels of its value columns and its rows; a row is a key and one cell
  for every value column. In the merged table (\<open>raw_df\<close>) the key is the pair of the
  columns \<open>year\<close> and \<open>period\<close>, which are its first two columns; in the canonical
  table (\<open>df\<close>) the key is the index \<open>date\<close>.
\<close>

record ('k, 'n) table =
  columns :: "string list"
  rows :: "('k \<times> 'n option list) list"

type_synonym 'n raw_table = "(string \<times> string, 'n) table"
type_synonym 'n date_table = "(string, 'n) table"

section \<open>The series merger: \<open>_construct_df\<close>\<close>

text \<open>The keys of a list in the order of their first occurrence.\<close>

definition first_occurrences :: "'a list \<Rightarrow> 'a list" where
  "first_occurrences xs = rev (remdups (rev xs))"

text \<open>
  The rows of an outer merge for one key \<open>k\<close>: \<open>ls\<close> are the cell lists of the left rows
  with this key, \<open>rs\<close> the values of the right rows with this key, \<open>n\<close> the number of
  value columns on the left. Every left row is paired with every right row; a side
  without a row for the key is filled with NaN.
\<close>

definition join_key :: "nat \<Rightarrow> 'k \<Rightarrow> 'c option list list \<Rightarrow> 'c option list \<Rightarrow> ('k \<times> 'c option list) list" where
  "join_key n k ls rs =
     (if rs = [] then map (\<lambda>c. (k, c @ [None])) ls
      else if ls = [] then map (\<lambda>v. (k, replicate n None @ [v])) rs
      else concat (map (\<lambda>c. map (\<lambda>v. (k, c @ [v])) rs) ls))"

text \<open>
  \<open>merge(how='outer')\<close> on the key of a table and a one-column frame: the keys come in
  the order of their first occurrence, those of the left table first. (Later versions
  of pandas sort the keys of an outer merge when both frames have rows. The theorems
  on the merged table speak of the set of its rows and of all its rows, so they hold
  for that order too.)
\<close>

definition outer_rows :: "nat \<Rightarrow> ('k \<times> 'c option list) list \<Rightarrow> ('k \<times> 'c option) list \<Rightarrow> ('k \<times> 'c option list) list" where
  "outer_rows n l r =
     concat (map (\<lambda>k. join_key n k (map snd (filter (\<lambda>x. fst x = k) l))
                                    (map snd (filter (\<lambda>x. fst x = k) r)))
                 (first_occurrences (map fst l @ map fst r)))"

text \<open>
  The labels of the merge. A label of the left table that is also the label of the new
  column gets the suffix \<open>_x\<close> and the new column the suffix \<open>_y\<close>; \<open>merge\<close> raises
  MergeError when the suffix makes two labels of the left table equal that were not
  equal before (pandas 1 only warned that it would). The left labels include \<open>year\<close>
  and \<open>period\<close>, which the new label never equals here (see \<open>merge_series\<close>).
\<close>

fun suffix_dups :: "string list \<Rightarrow> string list \<Rightarrow> string list \<Rightarrow> string list \<Rightarrow> string list" where
  "suffix_dups seen_new seen_old [] [] = []"
| "suffix_dups seen_new seen_old (n # ns) (l # ls) =
     (if n \<in> set seen_new \<and> l \<notin> set seen_old then [n] else [])
     @ suffix_dups (n # seen_new) (l # seen_old) ns ls"
| "suffix_dups seen_new seen_old _ _ = []"

definition merge_labels :: "string list \<Rightarrow> string \<Rightarrow> error + string list" where
  "merge_labels left sid =
     (if sid \<notin> set left then Inr (left @ [sid])
      else
        (let llabels = map (\<lambda>c. if c = sid then c @ ''_x'' else c) left in
         (case suffix_dups [] [] llabels left of
            [] \<Rightarrow> Inr (llabels @ [sid @ ''_y''])
          | d # _ \<Rightarrow> Inl (MergeError d))))"

text \<open>
  One turn of the loop of \<open>_construct_df\<close>. A payload without observations is skipped.
  Otherwise the values are converted (\<open>pd.to_numeric\<close>), the value column is renamed to
  the series identifier and the frame is merged into the table. A series identifier
  \<open>year\<close> or \<open>period\<close> makes a key label of the right frame stand for two columns, which
  \<open>merge\<close> refuses.
\<close>

definition merge_series :: "(string \<Rightarrow> 'n option option) \<Rightarrow> 'n raw_table \<Rightarrow> 'n series \<Rightarrow> error + 'n raw_table" where
  "merge_series parse bls_df bls_series =
     (if data bls_series = [] then Inr bls_df
      else
        ebind (to_numeric parse (map obs_value (data bls_series))) (\<lambda>vs.
        if seriesID bls_series = ''year'' \<or> seriesID bls_series = ''period''
        then Inl (LabelNotUnique (seriesID bls_series))
        else
          ebind (merge_labels (columns bls_df) (seriesID bls_series)) (\<lambda>labels.
          Inr \<lparr>columns = labels,
               rows = outer_rows (length (columns bls_df)) (rows bls_df)
                        (zip (map (\<lambda>ob. (obs_year ob, obs_period ob)) (data bls_series)) vs)\<rparr>)))"

fun merge_all :: "(string \<Rightarrow> 'n option option) \<Rightarrow> 'n raw_table \<Rightarrow> 'n series list \<Rightarrow> error + 'n raw_table" where
  "merge_all parse bls_df [] = Inr bls_df"
| "merge_all parse bls_df (s # ss) =
     (case merge_series parse bls_df s of
        Inl e \<Rightarrow> Inl e
      | Inr bls_df' \<Rightarrow> merge_all parse bls_df' ss)"

definition construct_df :: "(string \<Rightarrow> 'n option option) \<Rightarrow> 'n series list \<Rightarrow> error + 'n raw_table" where
  "construct_df parse raw_data = merge_all parse \<lparr>columns = [], rows = []\<rparr> raw_data"

section \<open>Digits, numbers and their decimal text\<close>

definition is_digit :: "char \<Rightarrow> bool" where
  "is_digit c = (CHR ''0'' \<le> c \<and> c \<le> CHR ''9'')"

definition is_upper :: "char \<Rightarrow> bool" where
  "is_upper c = (CHR ''A'' \<le> c \<and> c \<le> CHR ''Z'')"

definition digit_val :: "char \<Rightarrow> nat" where
  "digit_val c = of_char c - 48"

definition nat_of_digits :: "string \<Rightarrow> nat" where
  "nat_of_digits s = foldl (\<lambda>a c. 10 * a + digit_val c) 0 s"

definition digit_char :: "nat \<Rightarrow> char" where
  "digit_char n = char_of (48 + n)"

fun show_nat :: "nat \<Rightarrow> string" where
  "show_nat n = (if n < 10 then [digit_char n] else show_nat (n div 10) @ [digit_char (n mod 10)])"

definition show_int :: "int \<Rightarrow> string" where
  "show_int i = (if i < 0 then CHR ''-'' # show_nat (nat (- i)) else show_nat (nat i))"

section \<open>Timestamps: \<open>pd.to_datetime\<close> and \<open>strftime('%Y-%m')\<close>\<close>

text \<open>
  The program reads only year and month of a timestamp, so a timestamp is the pair of
  them. A pandas timestamp counts nanoseconds in 64 bits: the first day of a month is a
  timestamp from October 1677 to April 2262.
\<close>

type_synonym timestamp = "nat \<times> nat"

definition in_bounds :: "timestamp \<Rightarrow> bool" where
  "in_bounds t = (case t of (y, m) \<Rightarrow>
     (1677 < y \<or> (y = 1677 \<and> 10 \<le> m)) \<and> (y < 2262 \<or> (y = 2262 \<and> m \<le> 4)))"

text \<open>\<open>strftime('%Y-%m')\<close>: the year has four digits inside the bounds.\<close>

definition strftime_Y_m :: "timestamp \<Rightarrow> string" where
  "strftime_Y_m t = (case t of (y, m) \<Rightarrow>
     [digit_char (y div 1000), digit_char (y div 100 mod 10), digit_char (y div 10 mod 10),
      digit_char (y mod 10), CHR ''-'', digit_char (m div 10), digit_char (m mod 10)])"

text \<open>
  \<open>pd.to_datetime(..., format='%m-%Y')\<close> on one string. The directive \<open>%m\<close> is the regular
  expression \<open>1[0-2]|0[1-9]|[1-9]\<close>, \<open>%Y\<close> is \<open>\d\d\d\d\<close>, and the whole string has to match.
\<close>

definition month_token :: "string \<Rightarrow> bool" where
  "month_token m = (list_all is_digit m \<and> (length m = 1 \<or> length m = 2) \<and>
      1 \<le> nat_of_digits m \<and> nat_of_digits m \<le> 12)"

definition year_token :: "string \<Rightarrow> bool" where
  "year_token y = (list_all is_digit y \<and> length y = 4)"

definition strptime_m_Y :: "string \<Rightarrow> error + timestamp" where
  "strptime_m_Y s =
     (let m = takeWhile (\<lambda>c. c \<noteq> CHR ''-'') s;
          y = drop 1 (dropWhile (\<lambda>c. c \<noteq> CHR ''-'') s)
      in if month_token m \<and> length m < length s \<and> year_token y
            \<and> in_bounds (nat_of_digits y, nat_of_digits m)
         then Inr (nat_of_digits y, nat_of_digits m)
         else Inl (DateParseError s))"

text \<open>
  \<open>pd.to_datetime\<close> without a format guesses the notation. Two notations are embedded:
  the quarter notation \<open>YYYY-Qq\<close>, which pandas reads as the first month of the quarter
  \<open>q\<close> and refuses for \<open>q\<close> outside 1 to 4, and \<open>YYYY-m\<close> with a month without a leading
  zero. Both are taken with a year from 1678 to 2261. What pandas does with a column
  that is in neither notation is the parameter \<open>other\<close>.
\<close>

definition safe_year :: "string \<Rightarrow> bool" where
  "safe_year y = (year_token y \<and> 1678 \<le> nat_of_digits y \<and> nat_of_digits y \<le> 2261)"

definition quarter_like :: "string \<Rightarrow> bool" where
  "quarter_like s = (length s = 7 \<and> safe_year (take 4 s) \<and> s ! 4 = CHR ''-''
      \<and> s ! 5 = CHR ''Q'' \<and> is_digit (s ! 6))"

definition parse_quarter :: "string \<Rightarrow> error + timestamp" where
  "parse_quarter s =
     (let q = digit_val (s ! 6)
      in if 1 \<le> q \<and> q \<le> 4 then Inr (nat_of_digits (take 4 s), (q - 1) * 3 + 1)
         else Inl (DateParseError s))"

definition year_month_like :: "string \<Rightarrow> bool" where
  "year_month_like s = (safe_year (take 4 s) \<and> 5 < length s \<and> s ! 4 = CHR ''-''
      \<and> month_token (drop 5 s) \<and> s ! 5 \<noteq> CHR ''0'')"

definition to_datetime_infer :: "(string list \<Rightarrow> error + timestamp list) \<Rightarrow> string list \<Rightarrow> error + timestamp list" where
  "to_datetime_infer other col =
     (if list_all quarter_like col then traverse parse_quarter col
      else if list_all year_month_like col
        then Inr (map (\<lambda>s. (nat_of_digits (take 4 s), nat_of_digits (drop 5 s))) col)
      else other col)"

section \<open>Python's \<open>int\<close> on a string\<close>

text \<open>
  \<open>int(s)\<close> strips white space, takes an optional sign and then decimal digits, in which
  single underscores may stand between two digits; anything else raises ValueError.
\<close>

definition is_space :: "char \<Rightarrow> bool" where
  "is_space c = (c \<in> set [CHR '' '', CHR 0x09, CHR 0x0A, CHR 0x0B, CHR 0x0C, CHR 0x0D,
                          CHR 0x1C, CHR 0x1D, CHR 0x1E, CHR 0x1F])"

definition strip :: "string \<Rightarrow> string" where
  "strip s = rev (dropWhile is_space (rev (dropWhile is_space s)))"

fun int_body :: "string \<Rightarrow> bool" where
  "int_body [] = False"
| "int_body [c] = is_digit c"
| "int_body (c # d # cs) =
     (is_digit c \<and> (if d = CHR ''_'' then int_body cs else int_body (d # cs)))"

definition py_int :: "string \<Rightarrow> error + int" where
  "py_int s =
     (let t = strip s;
          neg = (take 1 t = ''-'');
          b = (if take 1 t = ''-'' \<or> take 1 t = ''+'' then drop 1 t else t)
      in if int_body b
         then Inr ((if neg then - 1 else 1) * int (nat_of_digits (filter (\<lambda>c. c \<noteq> CHR ''_'') b)))
         else Inl (IntParseError s))"

section \<open>The period normalizer: \<open>_organize_df\<close>\<close>

text \<open>
  The frame that \<open>_organize_df\<close> works on is the copy of the merged table together
  with the column \<open>date\<close>, once it exists.
\<close>

type_synonym 'n work = "'n raw_table \<times> string list option"

text \<open>\<open>df.loc[0]['period'][0]\<close>: the first character of the period of the row labelled 0.\<close>

definition period0 :: "'n raw_table \<Rightarrow> error + char" where
  "period0 df =
     (case rows df of
        [] \<Rightarrow> Inl (KeyError ''0'')
      | r # _ \<Rightarrow> (case snd (fst r) of [] \<Rightarrow> Inl IndexError | c # _ \<Rightarrow> Inr c))"

definition map_period :: "(string \<Rightarrow> string) \<Rightarrow> 'n raw_table \<Rightarrow> 'n raw_table" where
  "map_period f df = df\<lparr>rows := map (\<lambda>r. ((fst (fst r), f (snd (fst r))), snd r)) (rows df)\<rparr>"

text \<open>\<open>drop(columns=names, errors='ignore')\<close> on the value columns.\<close>

definition drop_columns :: "string list \<Rightarrow> ('k, 'n) table \<Rightarrow> ('k, 'n) table" where
  "drop_columns names t =
     \<lparr>columns = filter (\<lambda>c. c \<notin> set names) (columns t),
      rows = map (\<lambda>r. (fst r, map snd (filter (\<lambda>cv. fst cv \<notin> set names) (zip (columns t) (snd r)))))
                 (rows t)\<rparr>"

text \<open>
  \<open>df['date'] = ...\<close> creates the column \<open>date\<close>; a value column with the label \<open>date\<close>
  is overwritten by it.
\<close>

definition assign_date :: "string list \<Rightarrow> 'n raw_table \<Rightarrow> 'n work" where
  "assign_date ds df = (drop_columns [''date''] df, Some ds)"

definition quarterly :: "(string list \<Rightarrow> error + timestamp list) \<Rightarrow> 'n work \<Rightarrow> error + 'n work" where
  "quarterly other w =
     ebind (period0 (fst w)) (\<lambda>c.
     if c = CHR ''Q'' then
       (let df = map_period (filter (\<lambda>c. c \<noteq> CHR ''0'')) (fst w)
        in ebind (to_datetime_infer other (map (\<lambda>r. fst (fst r) @ ''-'' @ snd (fst r)) (rows df)))
             (\<lambda>ts. Inr (assign_date (map strftime_Y_m ts) df)))
     else Inr w)"

definition monthly :: "'n work \<Rightarrow> error + 'n work" where
  "monthly w =
     ebind (period0 (fst w)) (\<lambda>c.
     if c = CHR ''M'' then
       (let df = map_period (filter (\<lambda>c. c \<noteq> CHR ''M'')) (fst w)
        in ebind (traverse strptime_m_Y (map (\<lambda>r. snd (fst r) @ ''-'' @ fst (fst r)) (rows df)))
             (\<lambda>ts. Inr (assign_date (map strftime_Y_m ts) df)))
     else Inr w)"

definition semi_annual :: "(string list \<Rightarrow> error + timestamp list) \<Rightarrow> 'n work \<Rightarrow> error + 'n work" where
  "semi_annual other w =
     ebind (period0 (fst w)) (\<lambda>c.
     if c = CHR ''S'' then
       (let df = map_period (filter (\<lambda>c. c \<noteq> CHR ''S'')) (fst w)
        in ebind (traverse py_int (map (\<lambda>r. snd (fst r)) (rows df))) (\<lambda>halves.
           let df' = df\<lparr>rows := map (\<lambda>(r, h). ((fst (fst r), show_int (h * 6)), snd r)) (zip (rows df) halves)\<rparr>
           in ebind (to_datetime_infer other (map (\<lambda>r. fst (fst r) @ ''-'' @ snd (fst r)) (rows df')))
                (\<lambda>ts. Inr (assign_date (map strftime_Y_m ts) df'))))
     else Inr w)"

text \<open>
  Annual data: the column \<open>year\<close> is renamed to \<open>date\<close>. When a column \<open>date\<close> exists
  already, the label then stands for two columns and \<open>set_index('date')\<close> raises.
\<close>

definition annual :: "'n work \<Rightarrow> error + 'n work" where
  "annual w =
     ebind (period0 (fst w)) (\<lambda>c.
     if c = CHR ''A'' then
       (if snd w \<noteq> None \<or> ''date'' \<in> set (columns (fst w)) then Inl (LabelNotUnique ''date'')
        else Inr (fst w, Some (map (\<lambda>r. fst (fst r)) (rows (fst w)))))
     else Inr w)"

text \<open>
  \<open>set_index('date')\<close>, \<open>sort_index()\<close> and \<open>drop(columns=['period', 'year'],
  errors='ignore')\<close>. Without a column \<open>date\<close>, \<open>set_index\<close> raises KeyError. The sort is
  by the text of the key; rows with equal keys keep their order here (pandas leaves
  their order open). Left out of the embedding: no branch has made the column \<open>date\<close>
  and a series identifier is itself \<open>date\<close>, so that the numbers of this series become
  the index.
\<close>

definition set_index :: "'n work \<Rightarrow> error + 'n date_table" where
  "set_index w =
     (case snd w of
        None \<Rightarrow> (if ''date'' \<in> set (columns (fst w)) then Inl (Unsupported ''date'')
                 else Inl (KeyError ''date''))
      | Some ds \<Rightarrow> Inr \<lparr>columns = columns (fst w), rows = zip ds (map snd (rows (fst w)))\<rparr>)"

definition sort_index :: "('k::linorder, 'n) table \<Rightarrow> ('k, 'n) table" where
  "sort_index t = t\<lparr>rows := sort_key fst (rows t)\<rparr>"

definition organize_df :: "(string list \<Rightarrow> error + timestamp list) \<Rightarrow> 'n raw_table \<Rightarrow> error + 'n date_table" where
  "organize_df other raw_df =
     ebind (quarterly other (raw_df, None)) (\<lambda>w1.
     ebind (monthly w1) (\<lambda>w2.
     ebind (semi_annual other w2) (\<lambda>w3.
     ebind (annual w3) (\<lambda>w4.
     ebind (set_index w4) (\<lambda>df.
     Inr (drop_columns [''period'', ''year''] (sort_index df)))))))"

section \<open>The location resolver: \<open>_get_location\<close>\<close>

text \<open>
  The three reference tables are read from files of the package that are data, not
  code: they are parameters, a map from area code to name each.

  \<open>re.search(r'^[A-Z]{3}([\d|U][\d|S]\d\d\d)', series)\<close>: inside the brackets the bar is
  a character like any other.
\<close>

definition en_area_code :: "string \<Rightarrow> string option" where
  "en_area_code s =
     (if 8 \<le> length s \<and> list_all is_upper (take 3 s)
         \<and> (is_digit (s ! 3) \<or> s ! 3 = CHR ''|'' \<or> s ! 3 = CHR ''U'')
         \<and> (is_digit (s ! 4) \<or> s ! 4 = CHR ''|'' \<or> s ! 4 = CHR ''S'')
         \<and> list_all is_digit (take 3 (drop 5 s))
      then Some (take 5 (drop 3 s)) else None)"

text \<open>\<open>re.search(r'^[A-Z]{3}([A-Z]{2}\d{13})', series)\<close>\<close>

definition la_area_code :: "string \<Rightarrow> string option" where
  "la_area_code s =
     (if 18 \<le> length s \<and> list_all is_upper (take 5 s) \<and> list_all is_digit (take 13 (drop 5 s))
      then Some (take 15 (drop 3 s)) else None)"

text \<open>\<open>re.search(r'^[A-Z]*(\d\d\d\d\d\d\d)', series)\<close>: the letters are matched greedily,
  and giving one back never helps, since a letter is not a digit.\<close>

definition oe_area_code :: "string \<Rightarrow> string option" where
  "oe_area_code s =
     (let r = dropWhile is_upper s
      in if 7 \<le> length r \<and> list_all is_digit (take 7 r) then Some (take 7 r) else None)"

text \<open>
  \<open>re.search(...).group(1)\<close> raises AttributeError when the pattern does not match;
  \<open>table.loc[area_code]\<close> raises KeyError when the code is not in the table.
\<close>

definition lookup_area :: "(string \<Rightarrow> string option) \<Rightarrow> (string \<rightharpoonup> string) \<Rightarrow> string \<Rightarrow> (string \<times> string) list \<Rightarrow> error + (string \<times> string) list" where
  "lookup_area pattern area_codes series locs =
     (case pattern series of
        None \<Rightarrow> Inl AttributeError
      | Some area_code \<Rightarrow>
          (case area_codes area_code of
             None \<Rightarrow> Inl (KeyError area_code)
           | Some name \<Rightarrow> Inr (AList.update series name locs)))"

record area_tables =
  qcew_area_codes :: "string \<rightharpoonup> string"
  la_area_codes :: "string \<rightharpoonup> string"
  oes_area_codes :: "string \<rightharpoonup> string"

text \<open>The body of the loop: three \<open>if\<close> statements, one after the other.\<close>

definition locate :: "area_tables \<Rightarrow> (string \<times> string) list \<Rightarrow> string \<Rightarrow> error + (string \<times> string) list" where
  "locate t locs series =
     ebind (if take 2 series = ''EN'' then lookup_area en_area_code (qcew_area_codes t) series locs
            else Inr locs) (\<lambda>l1.
     ebind (if take 2 series = ''LA'' then lookup_area la_area_code (la_area_codes t) series l1
            else Inr l1) (\<lambda>l2.
     if take 2 series = ''OE'' then lookup_area oe_area_code (oes_area_codes t) series l2
     else Inr l2))"

fun locate_all :: "area_tables \<Rightarrow> (string \<times> string) list \<Rightarrow> string list \<Rightarrow> error + (string \<times> string) list" where
  "locate_all t locs [] = Inr locs"
| "locate_all t locs (series # ids) =
     (case locate t locs series of
        Inl e \<Rightarrow> Inl e
      | Inr locs' \<Rightarrow> locate_all t locs' ids)"

definition get_location :: "area_tables \<Rightarrow> string list \<Rightarrow> error + (string \<times> string) list" where
  "get_location t ids = locate_all t [] ids"

section \<open>The class \<open>BlsData\<close>\<close>

text \<open>
  What the constructor needs from outside the program: the parser of \<open>pd.to_numeric\<close>,
  the part of \<open>pd.to_datetime\<close> that is not embedded, the three reference tables and
  the outcome of the request to the BLS service (\<open>_request_bls_data\<close>).
\<close>

record 'n world =
  numeric_parser :: "string \<Rightarrow> 'n option option"
  datetime_other :: "string list \<Rightarrow> error + timestamp list"
  area_codes :: area_tables
  request_bls_data :: "error + 'n series list"

record 'n bls_data =
  series_ids :: "string list"
  start_year :: string
  end_year :: string
  raw_data :: "'n series list"
  raw_df :: "'n raw_table"
  df :: "'n date_table option"
  locations :: "(string \<times> string) list"

text \<open>
  \<open>__init__\<close>: \<open>raw_data\<close> is used when it is given and not empty, otherwise the service
  is asked. The canonical table \<open>df\<close> is \<open>None\<close> when the merged table has no row.
\<close>

definition init :: "'n world \<Rightarrow> string list \<Rightarrow> string \<Rightarrow> string \<Rightarrow> 'n series list option \<Rightarrow> error + 'n bls_data" where
  "init w ids sy ey raw =
     ebind (case raw of
              None \<Rightarrow> request_bls_data w
            | Some r \<Rightarrow> (if r \<noteq> [] then Inr r else request_bls_data w)) (\<lambda>rd.
     ebind (construct_df (numeric_parser w) rd) (\<lambda>rdf.
     ebind (if 0 < length (rows rdf)
            then ebind (organize_df (datetime_other w) rdf) (\<lambda>d. Inr (Some d))
            else Inr None) (\<lambda>d.
     ebind (get_location (area_codes w) ids) (\<lambda>locs.
     Inr \<lparr>series_ids = ids, start_year = sy, end_year = ey, raw_data = rd,
          raw_df = rdf, df = d, locations = locs\<rparr>))))"

text \<open>
  \<open>from_json\<close>, on the list of payloads read from the file: the years are taken from
  the last observation of the last payload and the first observation of the first one;
  a subscript on an empty list raises IndexError.
\<close>

definition from_json :: "'n world \<Rightarrow> 'n series list \<Rightarrow> error + 'n bls_data" where
  "from_json w json =
     (if json = [] then Inl IndexError
      else if data (last json) = [] then Inl IndexError
      else if data (hd json) = [] then Inl IndexError
      else init w (map seriesID json) (obs_year (last (data (last json))))
             (obs_year (hd (data (hd json)))) (Some json))"

section \<open>The presentation formatter\<close>

text \<open>
  The argument \<open>custom_column_names\<close>: \<open>None\<close>, a dictionary, or another object, of which
  only its truth value matters.
\<close>

datatype pyarg = PyNone | PyDict "(string \<times> string) list" | PyOther bool

definition truthy :: "pyarg \<Rightarrow> bool" where
  "truthy a = (case a of PyNone \<Rightarrow> False | PyDict d \<Rightarrow> d \<noteq> [] | PyOther b \<Rightarrow> b)"

text \<open>\<open>cols.update(custom_column_names)\<close>\<close>

definition dict_update :: "(string \<times> string) list \<Rightarrow> (string \<times> string) list \<Rightarrow> (string \<times> string) list" where
  "dict_update cols d = foldl (\<lambda>acc kv. AList.update (fst kv) (snd kv) acc) cols d"

text \<open>
  \<open>rename(columns=cols, errors='raise')\<close>: KeyError when a key of \<open>cols\<close> is no column
  label (the first such key is reported here); otherwise a new table in which every
  label that is a key is replaced.
\<close>

definition rename_columns :: "(string \<times> string) list \<Rightarrow> ('k, 'n) table \<Rightarrow> error + ('k, 'n) table" where
  "rename_columns cols t =
     (case filter (\<lambda>k. k \<notin> set (columns t)) (map fst cols) of
        k # _ \<Rightarrow> Inl (KeyError k)
      | [] \<Rightarrow> Inr (t\<lparr>columns := map (\<lambda>c. case map_of cols c of None \<Rightarrow> c | Some n \<Rightarrow> n) (columns t)\<rparr>))"

text \<open>
  \<open>clean_df\<close> returns its result and the object after the call: without short names
  \<open>cols\<close> is the dictionary \<open>self.locations\<close> itself, so that \<open>cols.update\<close> changes it.
\<close>

definition clean_df :: "'n bls_data \<Rightarrow> pyarg \<Rightarrow> bool \<Rightarrow> (error + 'n date_table) \<times> 'n bls_data" where
  "clean_df self custom_column_names short_location_names =
     (case (if short_location_names
            then traverse (\<lambda>kv. ebind (short_name (snd kv)) (\<lambda>n. Inr (fst kv, n))) (locations self)
            else Inr (locations self)) of
        Inl e \<Rightarrow> (Inl e, self)
      | Inr cols \<Rightarrow>
          (if truthy custom_column_names then
             (case custom_column_names of
                PyDict d \<Rightarrow>
                  (let cols' = dict_update cols d;
                       self' = (if short_location_names then self else self\<lparr>locations := cols'\<rparr>)
                   in (case df self' of
                         None \<Rightarrow> (Inl AttributeError, self')
                       | Some table_df \<Rightarrow> (rename_columns cols' table_df, self')))
              | _ \<Rightarrow> (Inl TypeError, self))
           else
             (case df self of
                None \<Rightarrow> (Inl AttributeError, self)
              | Some table_df \<Rightarrow> (rename_columns cols table_df, self))))"








section \<open>Predicates of the claims\<close>

text \<open>
  The identifier \<open>series\<close> belongs to one of the three program families, its pattern
  extracts the area code \<open>code\<close>, and the reference table of the family has no entry
  for it.
\<close>

definition unknown_geography :: "area_tables \<Rightarrow> string \<Rightarrow> string \<Rightarrow> bool" where
  "unknown_geography t series code =
     ((take 2 series = ''EN'' \<and> en_area_code series = Some code \<and> qcew_area_codes t code = None) \<or>
      (take 2 series = ''LA'' \<and> la_area_code series = Some code \<and> la_area_codes t code = None) \<or>
      (take 2 series = ''OE'' \<and> oe_area_code series = Some code \<and> oes_area_codes t code = None))"

text \<open>All values of a payload can be converted by \<open>pd.to_numeric\<close>.\<close>

definition convertible :: "(string \<Rightarrow> 'n option option) \<Rightarrow> 'n series \<Rightarrow> bool" where
  "convertible parse s =
     (case to_numeric parse (map obs_value (data s)) of Inl _ \<Rightarrow> False | Inr _ \<Rightarrow> True)"

text \<open>A value that is neither numeric nor missing: a string, not empty, that the
  parser rejects.\<close>

definition rejected :: "(string \<Rightarrow> 'n option option) \<Rightarrow> 'n jvalue \<Rightarrow> bool" where
  "rejected parse v = (case v of JString x \<Rightarrow> x \<noteq> [] \<and> parse x = None | _ \<Rightarrow> False)"

text \<open>
  The input contract of the merger: the identifiers of the payloads that have
  observations differ from each other and from the labels \<open>cols\<close> that the table has
  already, and none is \<open>year\<close> or \<open>period\<close>.
\<close>

definition well_labelled :: "string list \<Rightarrow> 'n series list \<Rightarrow> bool" where
  "well_labelled cols raw =
     (let ids = map seriesID (filter (\<lambda>s. data s \<noteq> []) raw)
      in distinct (cols @ ids) \<and> ''year'' \<notin> set ids \<and> ''period'' \<notin> set ids)"

text \<open>The keys of the rename mapping of \<open>clean_df\<close>: the resolved identifiers and the
  keys of the caller's dictionary.\<close>

definition rename_keys :: "'n bls_data \<Rightarrow> pyarg \<Rightarrow> string set" where
  "rename_keys self custom =
     fst ` set (locations self) \<union> (case custom of PyDict d \<Rightarrow> fst ` set d | _ \<Rightarrow> {})"





text \<open>
  The key of a row of a monthly table: the period is \<open>M\<close> and the two digits of a
  month from 01 to 12, the year has four digits and lies between 1678 and 2261. Its
  date key is the year, a hyphen and the two digits of the month.
\<close>

definition monthly_key :: "string \<times> string \<Rightarrow> bool" where
  "monthly_key k = (safe_year (fst k) \<and> length (snd k) = 3 \<and> hd (snd k) = CHR ''M''
      \<and> list_all is_digit (tl (snd k))
      \<and> 1 \<le> nat_of_digits (tl (snd k)) \<and> nat_of_digits (tl (snd k)) \<le> 12)"

definition monthly_date :: "string \<times> string \<Rightarrow> string" where
  "monthly_date k = fst k @ ''-'' @ tl (snd k)"

text \<open>
  The key of a row of a quarterly table: the period is one of \<open>Q01\<close> to \<open>Q04\<close>. Its
  date key has the first month of the quarter.
\<close>

definition quarterly_key :: "string \<times> string \<Rightarrow> bool" where
  "quarterly_key k = (safe_year (fst k) \<and> snd k \<in> set [''Q01'', ''Q02'', ''Q03'', ''Q04''])"

definition quarter_month :: "string \<Rightarrow> string" where
  "quarter_month p = (if p = ''Q01'' then ''01'' else if p = ''Q02'' then ''04''
                      else if p = ''Q03'' then ''07'' else ''10'')"

definition quarterly_date :: "string \<times> string \<Rightarrow> string" where
  "quarterly_date k = fst k @ ''-'' @ quarter_month (snd k)"

text \<open>
  A table whose value columns have none of the labels that the program uses itself, and
  whose rows have one cell for every value column.
\<close>

definition plain :: "('k, 'n) table \<Rightarrow> bool" where
  "plain t = (''date'' \<notin> set (columns t) \<and> ''period'' \<notin> set (columns t)
      \<and> ''year'' \<notin> set (columns t)
      \<and> list_all (\<lambda>r. length (snd r) = length (columns t)) (rows t))"

section \<open>Example data\<close>

text \<open>
  The examples use integers as numbers. On the strings of the examples the parser
  below agrees with pandas: it reads a string of decimal digits and rejects \<open>-\<close>, the
  mark of the BLS service for a missing value. No example reaches \<open>datetime_other\<close> or
  the request to the service.
\<close>

definition integer_parser :: "string \<Rightarrow> int option option" where
  "integer_parser s =
     (if s \<noteq> [] \<and> list_all is_digit s then Some (Some (int (nat_of_digits s))) else None)"

definition obs :: "string \<Rightarrow> string \<Rightarrow> string \<Rightarrow> int observation" where
  "obs y p v = \<lparr>obs_year = y, obs_period = p, obs_value = JString v\<rparr>"

definition ex_tables :: area_tables where
  "ex_tables = \<lparr>qcew_area_codes = [''06000'' \<mapsto> ''California -- Statewide''],
                la_area_codes = [''ST0600000000000'' \<mapsto> ''California''],
                oes_area_codes = [''0000000'' \<mapsto> ''National'']\<rparr>"

definition ex_world :: "int world" where
  "ex_world = \<lparr>numeric_parser = integer_parser,
               datetime_other = (\<lambda>col. Inl (DateParseError [])),
               area_codes = ex_tables, request_bls_data = Inl RequestError\<rparr>"

text \<open>The object that \<open>__init__\<close> builds from a local-area series with two monthly
  observations and an establishment series without observations.\<close>

definition ex_self :: "int bls_data" where
  "ex_self =
     \<lparr>series_ids = [''LAUST060000000000003'', ''ENU0600010010''],
      start_year = ''2020'', end_year = ''2020'',
      raw_data = [\<lparr>seriesID = ''LAUST060000000000003'',
                   data = [obs ''2020'' ''M12'' ''41'', obs ''2020'' ''M03'' ''38'']\<rparr>,
                  \<lparr>seriesID = ''ENU0600010010'', data = []\<rparr>],
      raw_df = \<lparr>columns = [''LAUST060000000000003''],
                rows = [((''2020'', ''M12''), [Some 41]), ((''2020'', ''M03''), [Some 38])]\<rparr>,
      df = Some \<lparr>columns = [''LAUST060000000000003''],
                 rows = [(''2020-03'', [Some 38]), (''2020-12'', [Some 41])]\<rparr>,
      locations = [(''LAUST060000000000003'', ''California''),
                   (''ENU0600010010'', ''California -- Statewide'')]\<rparr>"

section \<open>Short names\<close>

lemma re_split_nonempty: "re_split s \<noteq> []"
  by (induction s rule: re_split.induct) (auto split: list.splits elim: cons_piece.elims)







lemma short_name_hd: "short_name s = Inr (hd (re_split s))"
  using re_split_nonempty[of s] by (cases "re_split s") (auto simp: short_name_def)




section \<open>The presentation formatter leaves the canonical table alone\<close>






section \<open>Renaming raises on a key that is no column\<close>

lemma traverse_Inr_map:
  "(\<And>x. x \<in> set xs \<Longrightarrow> f x = Inr (g x)) \<Longrightarrow> traverse f xs = Inr (map g xs)"
  by (induction xs) auto

lemma short_cols:
  "traverse (\<lambda>kv. ebind (short_name (snd kv)) (\<lambda>n. Inr (fst kv, n))) locs
     = Inr (map (\<lambda>kv. (fst kv, hd (re_split (snd kv)))) locs)"
  by (rule traverse_Inr_map) (simp add: short_name_hd ebind_def)

lemma keys_dict_update: "fst ` set (dict_update cols d) = fst ` set cols \<union> fst ` set d"
proof -
  have "fst ` set (foldl (\<lambda>acc kv. AList.update (fst kv) (snd kv) acc) cols d)
          = fst ` set cols \<union> fst ` set d"
    by (induction d arbitrary: cols) (auto simp: dom_update)
  then show ?thesis by (simp add: dict_update_def)
qed

lemma rename_columns_missing:
  assumes "k \<in> fst ` set cols" and "k \<notin> set (columns t)"
  shows "\<exists>k'. k' \<notin> set (columns t) \<and> rename_columns cols t = Inl (KeyError k')"
proof -
  from assms have "k \<in> set (filter (\<lambda>k. k \<notin> set (columns t)) (map fst cols))" by auto
  then obtain k' ks where f: "filter (\<lambda>k. k \<notin> set (columns t)) (map fst cols) = k' # ks"
    by (cases "filter (\<lambda>k. k \<notin> set (columns t)) (map fst cols)") auto
  then have "k' \<in> set (filter (\<lambda>k. k \<notin> set (columns t)) (map fst cols))" by simp
  then have "k' \<notin> set (columns t)" by simp
  with f show ?thesis by (auto simp: rename_columns_def)
qed

lemma clean_df_missing_key:
  assumes "df self = Some t" and "k \<in> rename_keys self custom" and "k \<notin> set (columns t)"
    and "custom \<noteq> PyOther True"
  shows "\<exists>k'. k' \<notin> set (columns t) \<and> fst (clean_df self custom short) = Inl (KeyError k')"
proof (cases "truthy custom")
  case False
  then have k: "k \<in> fst ` set (locations self)"
    using assms(2) by (auto simp: rename_keys_def truthy_def split: pyarg.splits)
  show ?thesis
  proof (cases short)
    case True
    let ?cols = "map (\<lambda>kv. (fst kv, hd (re_split (snd kv)))) (locations self)"
    from k have "k \<in> fst ` set ?cols" by force
    from rename_columns_missing[OF this assms(3)] False True assms(1) show ?thesis
      by (simp add: clean_df_def short_cols)
  next
    case no: False
    from rename_columns_missing[OF k assms(3)] False no assms(1) show ?thesis
      by (simp add: clean_df_def)
  qed
next
  case True
  with assms(4) obtain d where d: "custom = PyDict d"
    by (cases custom) (auto simp: truthy_def)
  show ?thesis
  proof (cases short)
    case s: True
    let ?cols = "map (\<lambda>kv. (fst kv, hd (re_split (snd kv)))) (locations self)"
    from assms(2) d have "k \<in> fst ` set (dict_update ?cols d)"
      by (force simp: keys_dict_update rename_keys_def)
    from rename_columns_missing[OF this assms(3)] True s d assms(1) show ?thesis
      by (simp add: clean_df_def short_cols Let_def)
  next
    case no: False
    from assms(2) d have "k \<in> fst ` set (dict_update (locations self) d)"
      by (force simp: keys_dict_update rename_keys_def)
    from rename_columns_missing[OF this assms(3)] True no d assms(1) show ?thesis
      by (simp add: clean_df_def Let_def)
  qed
qed

text \<open>
  Claim C10. When the rename mapping of \<open>clean_df\<close> (the resolved locations and the
  caller's dictionary) has a key \<open>k\<close> that is no column of the canonical table, the
  call raises and returns no renamed table: KeyError for a label that is no column, or
  TypeError when the caller's names are a true object that is no dictionary.
\<close>

theorem clean_df_unknown_column_raises:
  assumes "df self = Some t" and "k \<in> rename_keys self custom" and "k \<notin> set (columns t)"
  shows "(custom = PyOther True \<and> fst (clean_df self custom short) = Inl TypeError) \<or>
         (\<exists>k'. k' \<notin> set (columns t) \<and> fst (clean_df self custom short) = Inl (KeyError k'))"
proof (cases "custom = PyOther True")
  case True
  then show ?thesis
    by (simp add: clean_df_def short_cols truthy_def)
next
  case False
  from clean_df_missing_key[OF assms False] show ?thesis by blast
qed

text \<open>
  The witness: the establishment series of \<open>ex_self\<close> has a resolved location and no
  observation, hence no column.
\<close>

theorem clean_df_unknown_column_raises_witness:
  "init ex_world [''LAUST060000000000003'', ''ENU0600010010''] ''2020'' ''2020''
     (Some [\<lparr>seriesID = ''LAUST060000000000003'',
             data = [obs ''2020'' ''M12'' ''41'', obs ''2020'' ''M03'' ''38'']\<rparr>,
            \<lparr>seriesID = ''ENU0600010010'', data = []\<rparr>]) = Inr ex_self \<and>
   df ex_self = Some \<lparr>columns = [''LAUST060000000000003''],
                      rows = [(''2020-03'', [Some 38]), (''2020-12'', [Some 41])]\<rparr> \<and>
   ''ENU0600010010'' \<in> rename_keys ex_self PyNone \<and>
   (\<exists>k'. k' \<noteq> ''LAUST060000000000003'' \<and> fst (clean_df ex_self PyNone True) = Inl (KeyError k')) \<and>
   fst (clean_df ex_self PyNone True) = Inl (KeyError ''ENU0600010010'')"
proof -
  let ?t = "\<lparr>columns = [''LAUST060000000000003''],
             rows = [(''2020-03'', [Some (38::int)]), (''2020-12'', [Some 41])]\<rparr>"
  have i: "init ex_world [''LAUST060000000000003'', ''ENU0600010010''] ''2020'' ''2020''
     (Some [\<lparr>seriesID = ''LAUST060000000000003'',
             data = [obs ''2020'' ''M12'' ''41'', obs ''2020'' ''M03'' ''38'']\<rparr>,
            \<lparr>seriesID = ''ENU0600010010'', data = []\<rparr>]) = Inr ex_self"
    by code_simp
  have d: "df ex_self = Some ?t"
    by (simp add: ex_self_def)
  have k: "''ENU0600010010'' \<in> rename_keys ex_self PyNone"
    by (simp add: rename_keys_def ex_self_def)
  have n: "''ENU0600010010'' \<notin> set (columns ?t)"
    by simp
  have c: "fst (clean_df ex_self PyNone True) = Inl (KeyError ''ENU0600010010'')"
    by code_simp
  from clean_df_unknown_column_raises[OF d k n, of True]
  have "\<exists>k'. k' \<notin> set (columns ?t) \<and> fst (clean_df ex_self PyNone True) = Inl (KeyError k')"
    by simp
  then have "\<exists>k'. k' \<noteq> ''LAUST060000000000003'' \<and> fst (clean_df ex_self PyNone True) = Inl (KeyError k')"
    by simp
  with i d k c show ?thesis by blast
qed

section \<open>Location resolution\<close>

lemma locate_unknown:
  "unknown_geography t series code \<Longrightarrow> locate t locs series = Inl (KeyError code)"
  by (auto simp: unknown_geography_def locate_def lookup_area_def ebind_def)

lemma locate_all_append:
  "locate_all t locs (pre @ post) = ebind (locate_all t locs pre) (\<lambda>l. locate_all t l post)"
  by (induction pre arbitrary: locs) (auto simp: ebind_def split: sum.splits)

lemma locate_all_member_fails:
  "series \<in> set ids \<Longrightarrow> unknown_geography t series code \<Longrightarrow> \<exists>e. locate_all t locs ids = Inl e"
  by (induction ids arbitrary: locs) (auto simp: locate_unknown split: sum.splits)

text \<open>
  Claim C3, as the program has it. For an identifier of one of the three families whose
  area code is not in the reference table of its family, the lookup raises KeyError
  with this code. The exception leaves \<open>_get_location\<close>: a list of identifiers that
  contains such an identifier yields no location map at all, and when the identifiers
  before it resolve, the result is this KeyError, whatever follows.
\<close>

theorem get_location_unknown_geography_aborts:
  assumes "unknown_geography t series code"
  shows "(series \<in> set ids \<longrightarrow> (\<exists>e. get_location t ids = Inl e)) \<and>
         (get_location t pre = Inr locs \<longrightarrow>
            get_location t (pre @ series # post) = Inl (KeyError code))"
  using assms
  by (auto simp: get_location_def locate_all_append ebind_def locate_unknown
      locate_all_member_fails)

theorem get_location_unknown_geography_aborts_witness:
  "unknown_geography ex_tables ''ENU0700010010'' ''07000'' \<and>
   get_location ex_tables [''OEUN000000000000000000001''] =
     Inr [(''OEUN000000000000000000001'', ''National'')] \<and>
   get_location ex_tables
     ([''OEUN000000000000000000001''] @ ''ENU0700010010'' # [''LAUST060000000000003''])
     = Inl (KeyError ''07000'')"
proof -
  have u: "unknown_geography ex_tables ''ENU0700010010'' ''07000''"
    by (simp add: unknown_geography_def en_area_code_def ex_tables_def is_digit_def is_upper_def)
  have p: "get_location ex_tables [''OEUN000000000000000000001''] =
     Inr [(''OEUN000000000000000000001'', ''National'')]"
    by code_simp
  from get_location_unknown_geography_aborts[OF u, of _ "[''OEUN000000000000000000001'']"] p
  have "get_location ex_tables
     ([''OEUN000000000000000000001''] @ ''ENU0700010010'' # [''LAUST060000000000003''])
     = Inl (KeyError ''07000'')"
    by blast
  with u p show ?thesis by blast
qed

text \<open>
  Claim C3, as the specification states it, fails: the local-area identifier resolves
  on its own, but together with an establishment identifier of unknown geography no
  identifier is resolved.
\<close>

theorem get_location_not_aborted_counterexample:
  "get_location ex_tables [''LAUST060000000000003''] =
     Inr [(''LAUST060000000000003'', ''California'')] \<and>
   get_location ex_tables [''LAUST060000000000003'', ''ENU0700010010''] =
     Inl (KeyError ''07000'')"
  by code_simp

section \<open>Payloads without observations\<close>

lemma merge_all_empty_payloads:
  "list_all (\<lambda>s. data s = []) raw \<Longrightarrow> merge_all parse t raw = Inr t"
  by (induction raw) (auto simp: merge_series_def)

text \<open>
  Claim C5, as the program has it. On an input whose payloads all have no observation
  the merger returns the merged table without rows and without value columns, and no
  error. \<open>__init__\<close> then does not run the period normalizer: the canonical table
  \<open>df\<close> of the object is \<open>None\<close>.
\<close>

theorem all_empty_payloads:
  assumes "raw \<noteq> []" and "list_all (\<lambda>s. data s = []) raw"
    and "get_location (area_codes w) ids = Inr locs"
  shows "construct_df (numeric_parser w) raw = Inr \<lparr>columns = [], rows = []\<rparr> \<and>
         init w ids sy ey (Some raw) =
           Inr \<lparr>series_ids = ids, start_year = sy, end_year = ey, raw_data = raw,
                raw_df = \<lparr>columns = [], rows = []\<rparr>, df = None, locations = locs\<rparr>"
  using assms
  by (simp add: construct_df_def merge_all_empty_payloads init_def ebind_def)

theorem all_empty_payloads_witness:
  "construct_df integer_parser
     [\<lparr>seriesID = ''LAUST060000000000003'', data = []\<rparr>, \<lparr>seriesID = ''ENU0600010010'', data = []\<rparr>]
     = Inr \<lparr>columns = [], rows = []\<rparr> \<and>
   init ex_world [] ''2020'' ''2021''
     (Some [\<lparr>seriesID = ''LAUST060000000000003'', data = []\<rparr>,
            \<lparr>seriesID = ''ENU0600010010'', data = []\<rparr>])
     = Inr \<lparr>series_ids = [], start_year = ''2020'', end_year = ''2021'',
            raw_data = [\<lparr>seriesID = ''LAUST060000000000003'', data = []\<rparr>,
                        \<lparr>seriesID = ''ENU0600010010'', data = []\<rparr>],
            raw_df = \<lparr>columns = [], rows = []\<rparr>, df = None, locations = []\<rparr>"
proof -
  have l: "get_location (area_codes ex_world) [] = Inr []"
    by (simp add: get_location_def)
  have n: "numeric_parser ex_world = integer_parser"
    by (simp add: ex_world_def)
  from all_empty_payloads[of "[\<lparr>seriesID = ''LAUST060000000000003'', data = []\<rparr>,
      \<lparr>seriesID = ''ENU0600010010'', data = []\<rparr>]" ex_world "[]" "[]" "''2020''" "''2021''"] l n
  show ?thesis by simp
qed

text \<open>
  Claim C5, as the specification states it, fails: after the construction from one
  payload without observations the canonical table is not an empty table, it is
  \<open>None\<close>.
\<close>

theorem empty_canonical_table_counterexample:
  "\<exists>b. init ex_world [''LAUST060000000000003''] ''2020'' ''2021''
         (Some [\<lparr>seriesID = ''LAUST060000000000003'', data = []\<rparr>]) = Inr b \<and>
       df b = None \<and> df b \<noteq> Some \<lparr>columns = [], rows = []\<rparr>"
proof -
  have "init ex_world [''LAUST060000000000003''] ''2020'' ''2021''
         (Some [\<lparr>seriesID = ''LAUST060000000000003'', data = []\<rparr>])
        = Inr \<lparr>series_ids = [''LAUST060000000000003''], start_year = ''2020'', end_year = ''2021'',
               raw_data = [\<lparr>seriesID = ''LAUST060000000000003'', data = []\<rparr>],
               raw_df = \<lparr>columns = [], rows = []\<rparr>, df = None,
               locations = [(''LAUST060000000000003'', ''California'')]\<rparr>"
    by code_simp
  then show ?thesis by simp
qed

section \<open>Two payloads with the same identifier\<close>

text \<open>
  Claim C6, as the program has it. The merger has no check for a repeated identifier.
  Two payloads with the same identifier, both with observations that convert, are
  merged without an error, and the table has one value column for each of them, with
  the suffixes \<open>_x\<close> and \<open>_y\<close> of \<open>merge\<close> at the identifier.
\<close>

theorem duplicate_identifier_not_rejected:
  assumes "seriesID s1 = seriesID s2" and "data s1 \<noteq> []" and "data s2 \<noteq> []"
    and "seriesID s1 \<noteq> ''year''" and "seriesID s1 \<noteq> ''period''"
    and "convertible parse s1" and "convertible parse s2"
  shows "\<exists>t. construct_df parse [s1, s2] = Inr t \<and>
             columns t = [seriesID s1 @ ''_x'', seriesID s1 @ ''_y'']"
  using assms
  by (auto simp: construct_df_def merge_series_def ebind_def convertible_def merge_labels_def
      split: sum.splits)

theorem duplicate_identifier_not_rejected_witness:
  "convertible integer_parser \<lparr>seriesID = ''CUUR0000SA0'', data = [obs ''2021'' ''M01'' ''261'']\<rparr> \<and>
   convertible integer_parser \<lparr>seriesID = ''CUUR0000SA0'', data = [obs ''2021'' ''M02'' ''263'']\<rparr> \<and>
   (\<exists>t. construct_df integer_parser
          [\<lparr>seriesID = ''CUUR0000SA0'', data = [obs ''2021'' ''M01'' ''261'']\<rparr>,
           \<lparr>seriesID = ''CUUR0000SA0'', data = [obs ''2021'' ''M02'' ''263'']\<rparr>] = Inr t \<and>
        columns t = [''CUUR0000SA0_x'', ''CUUR0000SA0_y''])"
proof -
  let ?a = "\<lparr>seriesID = ''CUUR0000SA0'', data = [obs ''2021'' ''M01'' ''261'']\<rparr>"
  let ?b = "\<lparr>seriesID = ''CUUR0000SA0'', data = [obs ''2021'' ''M02'' ''263'']\<rparr>"
  have a: "convertible integer_parser ?a" by code_simp
  have b: "convertible integer_parser ?b" by code_simp
  from duplicate_identifier_not_rejected[of ?a ?b integer_parser] a b
  show ?thesis by simp
qed

text \<open>
  Claim C6, as the specification states it, fails: the merge of two payloads with the
  identifier \<open>LAUST060000000000003\<close> is a table, not an error.
\<close>

theorem duplicate_identifier_counterexample:
  "construct_df integer_parser
     [\<lparr>seriesID = ''LAUST060000000000003'',
       data = [obs ''2020'' ''M03'' ''38'', obs ''2020'' ''M12'' ''41'']\<rparr>,
      \<lparr>seriesID = ''LAUST060000000000003'', data = [obs ''2020'' ''M12'' ''7'']\<rparr>]
   = Inr \<lparr>columns = [''LAUST060000000000003_x'', ''LAUST060000000000003_y''],
          rows = [((''2020'', ''M03''), [Some 38, None]),
                  ((''2020'', ''M12''), [Some 41, Some 7])]\<rparr>"
  by code_simp

section \<open>Values that are not numeric\<close>

lemma to_numeric1_rejected:
  "rejected parse v \<Longrightarrow>
     \<exists>x. x \<noteq> [] \<and> parse x = None \<and> to_numeric1 parse v = Inl (ConversionError x)"
  by (cases v) (auto simp: rejected_def to_numeric1_def)

lemma to_numeric1_Inl:
  "to_numeric1 parse v = Inl e \<Longrightarrow> \<exists>x. x \<noteq> [] \<and> parse x = None \<and> e = ConversionError x"
  by (cases v) (auto simp: to_numeric1_def split: if_splits option.splits)

lemma traverse_Inl: "traverse f xs = Inl e \<Longrightarrow> \<exists>x\<in>set xs. f x = Inl e"
  by (induction xs arbitrary: e) (auto split: sum.splits)

lemma traverse_member_Inl: "x \<in> set xs \<Longrightarrow> f x = Inl e \<Longrightarrow> \<exists>e'. traverse f xs = Inl e'"
  by (induction xs) (auto split: sum.splits)

lemma to_numeric_Inl:
  "to_numeric parse vs = Inl e \<Longrightarrow> \<exists>x. x \<noteq> [] \<and> parse x = None \<and> e = ConversionError x"
  unfolding to_numeric_def by (blast dest: traverse_Inl to_numeric1_Inl)

lemma to_numeric_rejected:
  assumes "v \<in> set vs" "rejected parse v"
  shows "\<exists>x. x \<noteq> [] \<and> parse x = None \<and> to_numeric parse vs = Inl (ConversionError x)"
proof -
  from to_numeric1_rejected[OF assms(2)]
  obtain x where "to_numeric1 parse v = Inl (ConversionError x)" by blast
  from traverse_member_Inl[of v vs "to_numeric1 parse", OF assms(1) this]
  obtain e where e: "to_numeric parse vs = Inl e"
    by (auto simp: to_numeric_def)
  from to_numeric_Inl[OF e] e show ?thesis by auto
qed

lemma merge_series_rejected:
  assumes "data s \<noteq> []" "ob \<in> set (data s)" "rejected parse (obs_value ob)"
  shows "\<exists>x. x \<noteq> [] \<and> parse x = None \<and> merge_series parse t s = Inl (ConversionError x)"
proof -
  from assms(2) have "obs_value ob \<in> set (map obs_value (data s))" by simp
  from to_numeric_rejected[OF this assms(3)] assms(1) show ?thesis
    by (auto simp: merge_series_def ebind_def)
qed

lemma merge_all_rejected:
  assumes "s \<in> set raw" "data s \<noteq> []" "ob \<in> set (data s)" "rejected parse (obs_value ob)"
  shows "\<exists>e. merge_all parse t raw = Inl e"
  using assms(1)
proof (induction raw arbitrary: t)
  case Nil
  then show ?case by simp
next
  case (Cons a raw)
  show ?case
  proof (cases "merge_series parse t a")
    case (Inl e)
    then show ?thesis by simp
  next
    case (Inr t')
    with merge_series_rejected[OF assms(2,3,4), of t] have "a \<noteq> s" by auto
    with Cons.prems have "s \<in> set raw" by simp
    from Cons.IH[OF this, of t'] Inr show ?thesis by simp
  qed
qed

lemma merge_series_well_labelled:
  assumes "well_labelled (columns t) (s # ss)"
  shows "(\<exists>x. x \<noteq> [] \<and> parse x = None \<and> merge_series parse t s = Inl (ConversionError x)) \<or>
         (\<exists>t'. merge_series parse t s = Inr t' \<and> well_labelled (columns t') ss \<and>
               columns t' = columns t @ map seriesID (filter (\<lambda>s. data s \<noteq> []) [s]))"
proof (cases "data s = []")
  case True
  with assms show ?thesis by (auto simp: merge_series_def well_labelled_def)
next
  case False
  show ?thesis
  proof (cases "to_numeric parse (map obs_value (data s))")
    case (Inl e)
    from to_numeric_Inl[OF this] Inl False show ?thesis
      by (auto simp: merge_series_def ebind_def)
  next
    case (Inr vs)
    with False assms show ?thesis
      by (auto simp: merge_series_def ebind_def well_labelled_def merge_labels_def Let_def)
  qed
qed

lemma merge_all_well_labelled:
  "well_labelled (columns t) raw \<Longrightarrow>
     (\<exists>x. x \<noteq> [] \<and> parse x = None \<and> merge_all parse t raw = Inl (ConversionError x)) \<or>
     (\<exists>t'. merge_all parse t raw = Inr t' \<and>
            columns t' = columns t @ map seriesID (filter (\<lambda>s. data s \<noteq> []) raw))"
proof (induction raw arbitrary: t)
  case Nil
  then show ?case by simp
next
  case (Cons s ss)
  from merge_series_well_labelled[OF Cons.prems, of parse]
  show ?case
  proof
    assume "\<exists>x. x \<noteq> [] \<and> parse x = None \<and> merge_series parse t s = Inl (ConversionError x)"
    then show ?thesis by auto
  next
    assume "\<exists>t'. merge_series parse t s = Inr t' \<and> well_labelled (columns t') ss \<and>
               columns t' = columns t @ map seriesID (filter (\<lambda>s. data s \<noteq> []) [s])"
    then obtain t' where t': "merge_series parse t s = Inr t'" "well_labelled (columns t') ss"
       "columns t' = columns t @ map seriesID (filter (\<lambda>s. data s \<noteq> []) [s])" by blast
    from Cons.IH[OF t'(2)] t'(1,3) show ?thesis by auto
  qed
qed

text \<open>
  Claim C4. When a payload with observations has a value that is a string, not empty,
  which \<open>pd.to_numeric\<close> cannot read, the merger returns no table: it raises. When
  the identifiers keep the input contract, the exception is the conversion error of
  \<open>pd.to_numeric\<close> for a string that it rejects, so no row of the series is admitted.
\<close>

theorem non_numeric_value_fails:
  assumes "s \<in> set raw" and "data s \<noteq> []" and "ob \<in> set (data s)"
    and "rejected parse (obs_value ob)"
  shows "(\<exists>e. construct_df parse raw = Inl e) \<and>
         (well_labelled [] raw \<longrightarrow>
            (\<exists>x. x \<noteq> [] \<and> parse x = None \<and> construct_df parse raw = Inl (ConversionError x)))"
proof -
  from merge_all_rejected[OF assms] have a: "\<exists>e. construct_df parse raw = Inl e"
    by (simp add: construct_df_def)
  moreover have "well_labelled [] raw \<Longrightarrow>
     \<exists>x. x \<noteq> [] \<and> parse x = None \<and> construct_df parse raw = Inl (ConversionError x)"
  proof -
    assume "well_labelled [] raw"
    then have "well_labelled (columns \<lparr>columns = [], rows = []\<rparr>) raw" by simp
    from merge_all_well_labelled[OF this, of parse] a show ?thesis
      by (auto simp: construct_df_def)
  qed
  ultimately show ?thesis by blast
qed

theorem non_numeric_value_fails_witness:
  "rejected integer_parser (obs_value (obs ''2020'' ''M04'' ''-'')) \<and>
   well_labelled []
     [\<lparr>seriesID = ''LAUST060000000000003'', data = [obs ''2020'' ''M03'' ''38'']\<rparr>,
      \<lparr>seriesID = ''CUUR0000SA0'', data = [obs ''2020'' ''M03'' ''258'', obs ''2020'' ''M04'' ''-'']\<rparr>] \<and>
   (\<exists>x. x \<noteq> [] \<and> integer_parser x = None \<and>
        construct_df integer_parser
          [\<lparr>seriesID = ''LAUST060000000000003'', data = [obs ''2020'' ''M03'' ''38'']\<rparr>,
           \<lparr>seriesID = ''CUUR0000SA0'', data = [obs ''2020'' ''M03'' ''258'', obs ''2020'' ''M04'' ''-'']\<rparr>]
          = Inl (ConversionError x))"
proof -
  let ?s = "\<lparr>seriesID = ''CUUR0000SA0'', data = [obs ''2020'' ''M03'' ''258'', obs ''2020'' ''M04'' ''-'']\<rparr>"
  let ?raw = "[\<lparr>seriesID = ''LAUST060000000000003'', data = [obs ''2020'' ''M03'' ''38'']\<rparr>, ?s]"
  have r: "rejected integer_parser (obs_value (obs ''2020'' ''M04'' ''-''))"
    by code_simp
  have w: "well_labelled [] ?raw"
    by code_simp
  have m: "?s \<in> set ?raw" by simp
  have d: "data ?s \<noteq> []" by simp
  have o: "obs ''2020'' ''M04'' ''-'' \<in> set (data ?s)" by simp
  from non_numeric_value_fails[OF m d o r] w r show ?thesis by blast
qed

section \<open>Digits and their numbers\<close>

lemma is_digit_iff: "is_digit c = (48 \<le> (of_char c :: nat) \<and> (of_char c :: nat) \<le> 57)"
  by (simp add: is_digit_def less_eq_char_def)

lemma digit_val_less: "is_digit c \<Longrightarrow> digit_val c < 10"
  by (auto simp: is_digit_iff digit_val_def)

lemma digit_char_val: "is_digit c \<Longrightarrow> digit_char (digit_val c) = c"
  by (simp add: is_digit_iff digit_val_def digit_char_def)

lemma is_digit_not_special:
  "is_digit c \<Longrightarrow> c \<noteq> CHR ''-'' \<and> c \<noteq> CHR ''M'' \<and> c \<noteq> CHR ''S'' \<and> c \<noteq> CHR ''A'' \<and> c \<noteq> CHR ''Q''"
  by (auto simp: is_digit_iff)

lemma nat_of_digits2: "nat_of_digits [a, b] = 10 * digit_val a + digit_val b"
  by (simp add: nat_of_digits_def)

lemma nat_of_digits4:
  "nat_of_digits [a, b, c, d] = 1000 * digit_val a + 100 * digit_val b + 10 * digit_val c + digit_val d"
  by (simp add: nat_of_digits_def)

lemma length4: "length y = 4 \<Longrightarrow> \<exists>a b c d. y = [a, b, c, d]"
  by (cases y; simp; cases "tl y"; simp; cases "tl (tl y)"; simp; cases "tl (tl (tl y))"; simp)

lemma length2: "length y = 2 \<Longrightarrow> \<exists>a b. y = [a, b]"
  by (cases y; simp; cases "tl y"; simp)

lemma horner_div: "d < 10 \<Longrightarrow> (10 * x + d) div 10 = (x::nat)"
  by simp

lemma horner_mod: "d < 10 \<Longrightarrow> (10 * x + d) mod 10 = (d::nat)"
  by simp

lemma horner4:
  assumes "a < 10" "b < 10" "c < 10" "d < (10::nat)"
  defines "y \<equiv> 10 * (10 * (10 * a + b) + c) + d"
  shows "y div 1000 = a" "y div 100 mod 10 = b" "y div 10 mod 10 = c" "y mod 10 = d"
proof -
  have h1: "y div 10 = 10 * (10 * a + b) + c"
    unfolding y_def using assms(4) by (rule horner_div)
  have "y div 100 = y div 10 div 10"
    using div_mult2_eq[of y 10 10] by simp
  then have h2: "y div 100 = 10 * a + b"
    using h1 assms(3) by (simp only: horner_div)
  have "y div 1000 = y div 100 div 10"
    using div_mult2_eq[of y 100 10] by simp
  then show "y div 1000 = a"
    using h2 assms(2) by (simp only: horner_div)
  show "y div 100 mod 10 = b"
    using h2 assms(2) by (simp only: horner_mod)
  show "y div 10 mod 10 = c"
    using h1 assms(3) by (simp only: horner_mod)
  show "y mod 10 = d"
    unfolding y_def using assms(4) by (rule horner_mod)
qed

lemma nat_of_digits4h:
  "nat_of_digits [a, b, c, d] = 10 * (10 * (10 * digit_val a + digit_val b) + digit_val c) + digit_val d"
  by (simp add: nat_of_digits_def)

lemma strftime_digits:
  assumes "year_token y" and "list_all is_digit m" and "length m = 2"
  shows "strftime_Y_m (nat_of_digits y, nat_of_digits m) = y @ ''-'' @ m"
proof -
  from assms(1) obtain a b c d where y: "y = [a, b, c, d]"
    using length4[of y] by (auto simp: year_token_def)
  from assms(3) obtain e f where m: "m = [e, f]" using length2[of m] by auto
  from assms(1) y have da: "digit_val a < 10" "digit_val b < 10" "digit_val c < 10" "digit_val d < 10"
    by (auto simp: year_token_def digit_val_less)
  from assms(2) m have dm: "digit_val e < 10" "digit_val f < 10"
    by (auto simp: digit_val_less)
  from assms(1) y have ca: "digit_char (digit_val a) = a" "digit_char (digit_val b) = b"
     "digit_char (digit_val c) = c" "digit_char (digit_val d) = d"
    by (auto simp: year_token_def digit_char_val)
  from assms(2) m have cm: "digit_char (digit_val e) = e" "digit_char (digit_val f) = f"
    by (auto simp: digit_char_val)
  note h = horner4[OF da]
  have my: "nat_of_digits y = 10 * (10 * (10 * digit_val a + digit_val b) + digit_val c) + digit_val d"
    by (simp only: y nat_of_digits4h)
  have mm: "nat_of_digits m = 10 * digit_val e + digit_val f"
    by (simp only: m nat_of_digits2)
  have "strftime_Y_m (nat_of_digits y, nat_of_digits m) = [a, b, c, d, CHR ''-'', e, f]"
    unfolding strftime_Y_m_def prod.case my mm h horner_div[OF dm(2)] horner_mod[OF dm(2)] ca cm
    by (rule refl)
  then show ?thesis by (simp add: y m)
qed

section \<open>The final steps of the normalizer\<close>

lemma rows_drop_columns_fst: "map fst (rows (drop_columns ns t)) = map fst (rows t)"
  by (simp add: drop_columns_def comp_def)

lemma rows_map_period_snd: "map snd (rows (map_period f t)) = map snd (rows t)"
  by (simp add: map_period_def comp_def)

lemma period0_drop_columns: "period0 (drop_columns ns t) = period0 t"
  by (cases "rows t") (simp_all add: period0_def drop_columns_def)

lemma map_insort_key: "map f (insort_key f x xs) = insort (f x) (map f xs)"
  by (induction xs) auto

lemma map_sort_key: "map f (sort_key f xs) = sort (map f xs)"
  by (induction xs) (auto simp: map_insort_key)

lemma drop_columns_id:
  assumes "set ns \<inter> set (columns t) = {}"
    and "list_all (\<lambda>r. length (snd r) = length (columns t)) (rows t)"
  shows "drop_columns ns t = t"
proof -
  have c: "filter (\<lambda>c. c \<notin> set ns) (columns t) = columns t"
    using assms(1) by (auto intro: filter_True)
  have "\<And>r. r \<in> set (rows t) \<Longrightarrow>
     (fst r, map snd (filter (\<lambda>cv. fst cv \<notin> set ns) (zip (columns t) (snd r)))) = r"
  proof -
    fix r assume r: "r \<in> set (rows t)"
    with assms(2) have l: "length (snd r) = length (columns t)" by (simp add: list_all_iff)
    have "filter (\<lambda>cv. fst cv \<notin> set ns) (zip (columns t) (snd r)) = zip (columns t) (snd r)"
      using assms(1) by (auto intro!: filter_True dest: set_zip_leftD)
    with l show "?thesis r" by simp
  qed
  then have "map (\<lambda>r. (fst r, map snd (filter (\<lambda>cv. fst cv \<notin> set ns) (zip (columns t) (snd r))))) (rows t) = rows t"
    by (simp add: map_idI)
  with c show ?thesis by (simp add: drop_columns_def)
qed

lemma plain_map_period: "plain t \<Longrightarrow> plain (map_period f t)"
  by (simp add: plain_def map_period_def list_all_iff)

lemma zip_keys_cells: "zip (map f xs) (map snd xs) = map (\<lambda>r. (f r, snd r)) xs"
  by (induction xs) auto

lemma finish_plain:
  assumes "plain t"
  shows "drop_columns [''period'', ''year'']
           (sort_index \<lparr>columns = columns (drop_columns [''date''] (map_period g t)),
                        rows = zip (map f (rows t)) (map snd (rows (drop_columns [''date''] (map_period g t))))\<rparr>)
         = \<lparr>columns = columns t, rows = sort_key fst (map (\<lambda>r. (f r, snd r)) (rows t))\<rparr>"
proof -
  from assms have pm: "plain (map_period g t)" by (rule plain_map_period)
  then have d: "drop_columns [''date''] (map_period g t) = map_period g t"
    by (intro drop_columns_id) (simp_all add: plain_def)
  have c: "columns (map_period g t) = columns t" by (simp add: map_period_def)
  let ?s = "\<lparr>columns = columns t, rows = sort_key fst (map (\<lambda>r. (f r, snd r)) (rows t))\<rparr>"
  have "drop_columns [''period'', ''year''] ?s = ?s"
    using assms by (intro drop_columns_id) (auto simp: plain_def list_all_iff)
  then show ?thesis
    by (simp add: d c rows_map_period_snd zip_keys_cells sort_index_def)
qed


section \<open>Monthly tables\<close>

lemma monthly_key_period:
  assumes "monthly_key k"
  obtains a b where "snd k = [CHR ''M'', a, b]" "is_digit a" "is_digit b"
proof -
  from assms have l: "length (snd k) = 3" and h: "hd (snd k) = CHR ''M''"
    and d: "list_all is_digit (tl (snd k))"
    by (auto simp: monthly_key_def)
  from l obtain c a b where s: "snd k = [c, a, b]"
    by (auto simp: eval_nat_numeral length_Suc_conv)
  with h d that show thesis by auto
qed

lemma filter_M:
  assumes "monthly_key k" shows "filter (\<lambda>c. c \<noteq> CHR ''M'') (snd k) = tl (snd k)"
proof -
  from assms obtain a b where "snd k = [CHR ''M'', a, b]" "is_digit a" "is_digit b"
    by (rule monthly_key_period)
  then show ?thesis using is_digit_not_special[of a] is_digit_not_special[of b] by simp
qed

lemma in_bounds_safe: "1678 \<le> y \<Longrightarrow> y \<le> 2261 \<Longrightarrow> in_bounds (y, m)"
  by (simp add: in_bounds_def)

lemma strptime_monthly:
  assumes "monthly_key k"
  shows "strptime_m_Y (tl (snd k) @ ''-'' @ fst k)
           = Inr (nat_of_digits (fst k), nat_of_digits (tl (snd k)))"
proof -
  from assms obtain a b where p: "snd k = [CHR ''M'', a, b]" and ab: "is_digit a" "is_digit b"
    by (rule monthly_key_period)
  from ab have n: "a \<noteq> CHR ''-''" "b \<noteq> CHR ''-''"
    using is_digit_not_special by blast+
  from assms p have mt: "month_token [a, b]"
    by (simp add: monthly_key_def month_token_def)
  from assms have sy: "safe_year (fst k)" by (simp add: monthly_key_def)
  then have yt: "year_token (fst k)" and ib: "in_bounds (nat_of_digits (fst k), nat_of_digits [a, b])"
    by (simp_all add: safe_year_def in_bounds_safe)
  have tw: "takeWhile (\<lambda>c. c \<noteq> CHR ''-'') ([a, b] @ ''-'' @ fst k) = [a, b]"
    using n by simp
  have dw: "drop 1 (dropWhile (\<lambda>c. c \<noteq> CHR ''-'') ([a, b] @ ''-'' @ fst k)) = fst k"
    using n by simp
  show ?thesis
    unfolding strptime_m_Y_def p list.sel tw dw Let_def
    using mt yt ib by simp
qed

lemma strftime_monthly:
  assumes "monthly_key k"
  shows "strftime_Y_m (nat_of_digits (fst k), nat_of_digits (tl (snd k))) = monthly_date k"
proof -
  from assms have "year_token (fst k)" "list_all is_digit (tl (snd k))" "length (tl (snd k)) = 2"
    by (auto simp: monthly_key_def safe_year_def)
  from strftime_digits[OF this] show ?thesis by (simp add: monthly_date_def)
qed

lemma period0_monthly:
  assumes "rows t \<noteq> []" and "list_all (\<lambda>r. monthly_key (fst r)) (rows t)"
  shows "period0 t = Inr (CHR ''M'')"
proof -
  from assms obtain r rs where r: "rows t = r # rs" and m: "monthly_key (fst r)"
    by (cases "rows t") auto
  from m obtain a b where "snd (fst r) = [CHR ''M'', a, b]" by (rule monthly_key_period)
  with r show ?thesis by (simp add: period0_def)
qed

lemma period0_after_monthly:
  assumes "rows t \<noteq> []" and "list_all (\<lambda>r. monthly_key (fst r)) (rows t)"
  shows "\<exists>c. is_digit c \<and> period0 (map_period (filter (\<lambda>c. c \<noteq> CHR ''M'')) t) = Inr c"
proof -
  from assms obtain r rs where r: "rows t = r # rs" and m: "monthly_key (fst r)"
    by (cases "rows t") auto
  from m obtain a b where p: "snd (fst r) = [CHR ''M'', a, b]" and ab: "is_digit a" "is_digit b"
    by (rule monthly_key_period)
  from filter_M[OF m] p have "filter (\<lambda>c. c \<noteq> CHR ''M'') (snd (fst r)) = [a, b]" by simp
  with r ab show ?thesis by (auto simp: period0_def map_period_def)
qed

lemma monthly_branch:
  assumes "rows t \<noteq> []" and "list_all (\<lambda>r. monthly_key (fst r)) (rows t)"
  shows "monthly (t, None) =
           Inr (assign_date (map (\<lambda>r. monthly_date (fst r)) (rows t))
                  (map_period (filter (\<lambda>c. c \<noteq> CHR ''M'')) t))"
proof -
  let ?df = "map_period (filter (\<lambda>c. c \<noteq> CHR ''M'')) t"
  have "traverse strptime_m_Y (map (\<lambda>r. snd (fst r) @ ''-'' @ fst (fst r)) (rows ?df))
        = Inr (map (\<lambda>s. (nat_of_digits (drop 3 s), nat_of_digits (take 2 s)))
                 (map (\<lambda>r. snd (fst r) @ ''-'' @ fst (fst r)) (rows ?df)))"
  proof (rule traverse_Inr_map)
    fix x assume "x \<in> set (map (\<lambda>r. snd (fst r) @ ''-'' @ fst (fst r)) (rows ?df))"
    then obtain r where r: "r \<in> set (rows t)"
      and x: "x = filter (\<lambda>c. c \<noteq> CHR ''M'') (snd (fst r)) @ ''-'' @ fst (fst r)"
      by (auto simp: map_period_def)
    from r assms(2) have m: "monthly_key (fst r)" by (simp add: list_all_iff)
    from m obtain a b where p: "snd (fst r) = [CHR ''M'', a, b]" by (rule monthly_key_period)
    from strptime_monthly[OF m] filter_M[OF m] x p
    show "strptime_m_Y x = Inr (nat_of_digits (drop 3 x), nat_of_digits (take 2 x))"
      by simp
  qed
  moreover have "map strftime_Y_m (map (\<lambda>s. (nat_of_digits (drop 3 s), nat_of_digits (take 2 s)))
                 (map (\<lambda>r. snd (fst r) @ ''-'' @ fst (fst r)) (rows ?df)))
        = map (\<lambda>r. monthly_date (fst r)) (rows t)"
  proof -
    have "\<And>r. r \<in> set (rows t) \<Longrightarrow>
       strftime_Y_m (nat_of_digits (drop 3 (filter (\<lambda>c. c \<noteq> CHR ''M'') (snd (fst r)) @ ''-'' @ fst (fst r))),
                     nat_of_digits (take 2 (filter (\<lambda>c. c \<noteq> CHR ''M'') (snd (fst r)) @ ''-'' @ fst (fst r))))
       = monthly_date (fst r)"
    proof -
      fix r assume "r \<in> set (rows t)"
      with assms(2) have m: "monthly_key (fst r)" by (simp add: list_all_iff)
      from m obtain a b where p: "snd (fst r) = [CHR ''M'', a, b]" by (rule monthly_key_period)
      from strftime_monthly[OF m] filter_M[OF m] p show "?thesis r" by simp
    qed
    then show ?thesis by (simp add: map_period_def comp_def)
  qed
  ultimately show ?thesis
    using period0_monthly[OF assms] by (simp add: monthly_def ebind_def Let_def)
qed


text \<open>
  Claim C8. For a merged table with at least one row whose periods are all monthly,
  the period normalizer returns a table: the marker \<open>M\<close> is stripped, the two digits
  are read as the month, the date key of a row is its year, a hyphen and these two
  digits, and the rows are sorted ascending by the date key. For a plain table the
  result is given in full: the value columns and the cells of every row are kept.
\<close>

theorem organize_df_monthly:
  assumes "rows t \<noteq> []" and "list_all (\<lambda>r. monthly_key (fst r)) (rows t)"
  shows "\<exists>d. organize_df other t = Inr d \<and>
             map fst (rows d) = sort (map (\<lambda>r. monthly_date (fst r)) (rows t)) \<and>
             sorted (map fst (rows d)) \<and>
             (plain t \<longrightarrow> d = \<lparr>columns = columns t,
                  rows = sort_key fst (map (\<lambda>r. (monthly_date (fst r), snd r)) (rows t))\<rparr>)"
proof -
  let ?df = "map_period (filter (\<lambda>c. c \<noteq> CHR ''M'')) t"
  let ?dates = "map (\<lambda>r. monthly_date (fst r)) (rows t)"
  let ?w = "assign_date ?dates ?df"
  have q: "quarterly other (t, None) = Inr (t, None)"
    using period0_monthly[OF assms] by (simp add: quarterly_def ebind_def)
  have m: "monthly (t, None) = Inr ?w" by (rule monthly_branch[OF assms])
  from period0_after_monthly[OF assms] obtain c where c: "is_digit c" "period0 ?df = Inr c"
    by blast
  then have p: "period0 (fst ?w) = Inr c"
    by (simp add: assign_date_def period0_drop_columns)
  from c(1) have cn: "c \<noteq> CHR ''S''" "c \<noteq> CHR ''A''"
    using is_digit_not_special by blast+
  have s: "semi_annual other ?w = Inr ?w"
    using p cn by (simp add: semi_annual_def ebind_def)
  have a: "annual ?w = Inr ?w"
    using p cn by (simp add: annual_def ebind_def)
  let ?ix = "\<lparr>columns = columns (drop_columns [''date''] ?df),
              rows = zip ?dates (map snd (rows (drop_columns [''date''] ?df)))\<rparr>"
  let ?d = "drop_columns [''period'', ''year''] (sort_index ?ix)"
  have si: "set_index ?w = Inr ?ix"
    by (simp add: set_index_def assign_date_def)
  have org: "organize_df other t = Inr ?d"
    by (simp only: organize_df_def q m s a si ebind_def sum.case)
  have len: "length ?dates = length (map snd (rows (drop_columns [''date''] ?df)))"
    by (simp add: drop_columns_def map_period_def)
  have "map fst (rows ?d) = map fst (sort_key fst (zip ?dates (map snd (rows (drop_columns [''date''] ?df)))))"
    by (simp add: rows_drop_columns_fst sort_index_def)
  also have "\<dots> = sort (map fst (zip ?dates (map snd (rows (drop_columns [''date''] ?df)))))"
    by (rule map_sort_key)
  also have "\<dots> = sort ?dates"
    using len by (simp only: map_fst_zip)
  finally have keys: "map fst (rows ?d) = sort ?dates" .
  have full: "plain t \<Longrightarrow> ?d = \<lparr>columns = columns t,
                  rows = sort_key fst (map (\<lambda>r. (monthly_date (fst r), snd r)) (rows t))\<rparr>"
    by (rule finish_plain)
  from org keys full show ?thesis by simp
qed

theorem organize_df_monthly_witness:
  "rows (raw_df ex_self) \<noteq> [] \<and> plain (raw_df ex_self) \<and>
   map (\<lambda>r. fst r) (rows (raw_df ex_self)) = [(''2020'', ''M12''), (''2020'', ''M03'')] \<and>
   monthly_key (''2020'', ''M12'') \<and> monthly_key (''2020'', ''M03'') \<and>
   (\<exists>d. organize_df (datetime_other ex_world) (raw_df ex_self) = Inr d \<and>
        map fst (rows d) = [''2020-03'', ''2020-12''] \<and>
        d = \<lparr>columns = [''LAUST060000000000003''],
             rows = [(''2020-03'', [Some 38]), (''2020-12'', [Some 41])]\<rparr>)"
proof -
  have r: "rows (raw_df ex_self) \<noteq> []" by (simp add: ex_self_def)
  have k: "map (\<lambda>r. fst r) (rows (raw_df ex_self)) = [(''2020'', ''M12''), (''2020'', ''M03'')]"
    by (simp add: ex_self_def)
  have m1: "monthly_key (''2020'', ''M12'')" by code_simp
  have m2: "monthly_key (''2020'', ''M03'')" by code_simp
  have m: "list_all (\<lambda>r. monthly_key (fst r)) (rows (raw_df ex_self))"
    using m1 m2 by (simp add: ex_self_def)
  have p: "plain (raw_df ex_self)" by code_simp
  have s1: "sort (map (\<lambda>r. monthly_date (fst r)) (rows (raw_df ex_self))) = [''2020-03'', ''2020-12'']"
    by code_simp
  have s2: "\<lparr>columns = columns (raw_df ex_self),
             rows = sort_key fst (map (\<lambda>r. (monthly_date (fst r), snd r)) (rows (raw_df ex_self)))\<rparr>
           = \<lparr>columns = [''LAUST060000000000003''],
              rows = [(''2020-03'', [Some 38]), (''2020-12'', [Some (41::int)])]\<rparr>"
    by code_simp
  from organize_df_monthly[OF r m, of "datetime_other ex_world"] p s1 s2
  have "\<exists>d. organize_df (datetime_other ex_world) (raw_df ex_self) = Inr d \<and>
        map fst (rows d) = [''2020-03'', ''2020-12''] \<and>
        d = \<lparr>columns = [''LAUST060000000000003''],
             rows = [(''2020-03'', [Some 38]), (''2020-12'', [Some 41])]\<rparr>"
    by auto
  with r p k m1 m2 show ?thesis by blast
qed

section \<open>Quarterly tables\<close>

lemma quarter_string:
  assumes "quarterly_key k"
  defines "s \<equiv> fst k @ ''-'' @ filter (\<lambda>c. c \<noteq> CHR ''0'') (snd k)"
  shows "quarter_like s" and "parse_quarter s = Inr (nat_of_digits (fst k), nat_of_digits (quarter_month (snd k)))"
proof -
  from assms(1) have sy: "safe_year (fst k)"
    and p: "snd k = ''Q01'' \<or> snd k = ''Q02'' \<or> snd k = ''Q03'' \<or> snd k = ''Q04''"
    by (auto simp: quarterly_key_def)
  from sy obtain a b c d where y: "fst k = [a, b, c, d]"
    using length4[of "fst k"] by (auto simp: safe_year_def year_token_def)
  from p sy show "quarter_like s"
    unfolding s_def y by (auto simp: quarter_like_def is_digit_def)
  from p show "parse_quarter s = Inr (nat_of_digits (fst k), nat_of_digits (quarter_month (snd k)))"
    unfolding s_def y
    by (auto simp: parse_quarter_def quarter_month_def digit_val_def nat_of_digits_def)
qed

lemma strftime_quarterly:
  assumes "quarterly_key k"
  shows "strftime_Y_m (nat_of_digits (fst k), nat_of_digits (quarter_month (snd k))) = quarterly_date k"
proof -
  from assms have "year_token (fst k)" by (simp add: quarterly_key_def safe_year_def)
  moreover have "list_all is_digit (quarter_month (snd k))" "length (quarter_month (snd k)) = 2"
    by (simp_all add: quarter_month_def is_digit_def)
  ultimately show ?thesis
    using strftime_digits by (simp add: quarterly_date_def)
qed

lemma period0_quarterly:
  assumes "rows t \<noteq> []" and "list_all (\<lambda>r. quarterly_key (fst r)) (rows t)"
  shows "period0 t = Inr (CHR ''Q'')"
    and "period0 (map_period (filter (\<lambda>c. c \<noteq> CHR ''0'')) t) = Inr (CHR ''Q'')"
proof -
  from assms obtain r rs where r: "rows t = r # rs" and m: "quarterly_key (fst r)"
    by (cases "rows t") auto
  from m have "snd (fst r) = ''Q01'' \<or> snd (fst r) = ''Q02'' \<or> snd (fst r) = ''Q03'' \<or> snd (fst r) = ''Q04''"
    by (auto simp: quarterly_key_def)
  with r show "period0 t = Inr (CHR ''Q'')"
    and "period0 (map_period (filter (\<lambda>c. c \<noteq> CHR ''0'')) t) = Inr (CHR ''Q'')"
    by (auto simp: period0_def map_period_def)
qed

lemma quarterly_branch:
  assumes "rows t \<noteq> []" and "list_all (\<lambda>r. quarterly_key (fst r)) (rows t)"
  shows "quarterly other (t, None) =
           Inr (assign_date (map (\<lambda>r. quarterly_date (fst r)) (rows t))
                  (map_period (filter (\<lambda>c. c \<noteq> CHR ''0'')) t))"
proof -
  let ?df = "map_period (filter (\<lambda>c. c \<noteq> CHR ''0'')) t"
  let ?col = "map (\<lambda>r. fst (fst r) @ ''-'' @ snd (fst r)) (rows ?df)"
  let ?ts = "map (\<lambda>r. (nat_of_digits (fst (fst r)), nat_of_digits (quarter_month (snd (fst r))))) (rows t)"
  have col: "?col = map (\<lambda>r. fst (fst r) @ ''-'' @ filter (\<lambda>c. c \<noteq> CHR ''0'') (snd (fst r))) (rows t)"
    by (simp add: map_period_def comp_def)
  have ql: "list_all quarter_like ?col"
    unfolding col using assms(2) quarter_string(1) by (auto simp: list_all_iff)
  have "traverse parse_quarter
          (map (\<lambda>r. fst (fst r) @ ''-'' @ filter (\<lambda>c. c \<noteq> CHR ''0'') (snd (fst r))) (rows t))
        = Inr (map (\<lambda>s. (nat_of_digits (take 4 s), (digit_val (s ! 6) - 1) * 3 + 1))
            (map (\<lambda>r. fst (fst r) @ ''-'' @ filter (\<lambda>c. c \<noteq> CHR ''0'') (snd (fst r))) (rows t)))"
  proof (rule traverse_Inr_map)
    fix x assume "x \<in> set (map (\<lambda>r. fst (fst r) @ ''-'' @ filter (\<lambda>c. c \<noteq> CHR ''0'') (snd (fst r))) (rows t))"
    then obtain r where r: "r \<in> set (rows t)"
      and x: "x = fst (fst r) @ ''-'' @ filter (\<lambda>c. c \<noteq> CHR ''0'') (snd (fst r))" by auto
    from r assms(2) have "quarterly_key (fst r)" by (simp add: list_all_iff)
    from quarter_string(2)[OF this] x
    show "parse_quarter x = Inr (nat_of_digits (take 4 x), (digit_val (x ! 6) - 1) * 3 + 1)"
      by (auto simp: parse_quarter_def Let_def split: if_splits)
  qed
  moreover have "map (\<lambda>s. (nat_of_digits (take 4 s), (digit_val (s ! 6) - 1) * 3 + 1))
            (map (\<lambda>r. fst (fst r) @ ''-'' @ filter (\<lambda>c. c \<noteq> CHR ''0'') (snd (fst r))) (rows t)) = ?ts"
  proof -
    have "\<And>r. r \<in> set (rows t) \<Longrightarrow>
      (\<lambda>s. (nat_of_digits (take 4 s), (digit_val (s ! 6) - 1) * 3 + 1))
         (fst (fst r) @ ''-'' @ filter (\<lambda>c. c \<noteq> CHR ''0'') (snd (fst r)))
      = (nat_of_digits (fst (fst r)), nat_of_digits (quarter_month (snd (fst r))))"
    proof -
      fix r assume "r \<in> set (rows t)"
      with assms(2) have "quarterly_key (fst r)" by (simp add: list_all_iff)
      from quarter_string(2)[OF this]
      show "?thesis r" by (auto simp: parse_quarter_def Let_def split: if_splits)
    qed
    then show ?thesis by simp
  qed
  ultimately have tr: "traverse parse_quarter ?col = Inr ?ts"
    unfolding col by simp
  have st: "map strftime_Y_m ?ts = map (\<lambda>r. quarterly_date (fst r)) (rows t)"
    using assms(2) strftime_quarterly by (auto simp: list_all_iff)
  have inf: "to_datetime_infer other ?col = Inr ?ts"
    using ql tr by (simp add: to_datetime_infer_def)
  have "quarterly other (t, None)
          = ebind (to_datetime_infer other ?col) (\<lambda>ts. Inr (assign_date (map strftime_Y_m ts) ?df))"
    using period0_quarterly(1)[OF assms] by (simp add: quarterly_def ebind_def Let_def)
  also have "\<dots> = Inr (assign_date (map strftime_Y_m ?ts) ?df)"
    by (simp only: inf ebind_def sum.case)
  finally show ?thesis by (simp only: st)
qed


text \<open>
  Claim C1, as the program has it. For a merged table with at least one row whose
  periods are all among \<open>Q01\<close> to \<open>Q04\<close>, the period normalizer returns a table. The
  zero is stripped from the period, the text \<open>YYYY-Qq\<close> is handed to
  \<open>pd.to_datetime\<close>, which reads it as a quarter, and the date key of a row is its year,
  a hyphen and the first month of the quarter: 01, 04, 07 or 10. The key lies in the
  year of the row, and the rows are sorted ascending by it.
\<close>

theorem organize_df_quarterly:
  assumes "rows t \<noteq> []" and "list_all (\<lambda>r. quarterly_key (fst r)) (rows t)"
  shows "\<exists>d. organize_df other t = Inr d \<and>
             map fst (rows d) = sort (map (\<lambda>r. quarterly_date (fst r)) (rows t)) \<and>
             (plain t \<longrightarrow> d = \<lparr>columns = columns t,
                  rows = sort_key fst (map (\<lambda>r. (quarterly_date (fst r), snd r)) (rows t))\<rparr>)"
proof -
  let ?df = "map_period (filter (\<lambda>c. c \<noteq> CHR ''0'')) t"
  let ?dates = "map (\<lambda>r. quarterly_date (fst r)) (rows t)"
  let ?w = "assign_date ?dates ?df"
  have q: "quarterly other (t, None) = Inr ?w" by (rule quarterly_branch[OF assms])
  have p: "period0 (fst ?w) = Inr (CHR ''Q'')"
    using period0_quarterly(2)[OF assms] by (simp add: assign_date_def period0_drop_columns)
  have m: "monthly ?w = Inr ?w"
    using p by (simp add: monthly_def ebind_def)
  have s: "semi_annual other ?w = Inr ?w"
    using p by (simp add: semi_annual_def ebind_def)
  have a: "annual ?w = Inr ?w"
    using p by (simp add: annual_def ebind_def)
  let ?ix = "\<lparr>columns = columns (drop_columns [''date''] ?df),
              rows = zip ?dates (map snd (rows (drop_columns [''date''] ?df)))\<rparr>"
  let ?d = "drop_columns [''period'', ''year''] (sort_index ?ix)"
  have si: "set_index ?w = Inr ?ix"
    by (simp add: set_index_def assign_date_def)
  have org: "organize_df other t = Inr ?d"
    by (simp only: organize_df_def q m s a si ebind_def sum.case)
  have len: "length ?dates = length (map snd (rows (drop_columns [''date''] ?df)))"
    by (simp add: drop_columns_def map_period_def)
  have "map fst (rows ?d) = map fst (sort_key fst (zip ?dates (map snd (rows (drop_columns [''date''] ?df)))))"
    by (simp add: rows_drop_columns_fst sort_index_def)
  also have "\<dots> = sort (map fst (zip ?dates (map snd (rows (drop_columns [''date''] ?df)))))"
    by (rule map_sort_key)
  also have "\<dots> = sort ?dates"
    using len by (simp only: map_fst_zip)
  finally have keys: "map fst (rows ?d) = sort ?dates" .
  have full: "plain t \<Longrightarrow> ?d = \<lparr>columns = columns t,
                  rows = sort_key fst (map (\<lambda>r. (quarterly_date (fst r), snd r)) (rows t))\<rparr>"
    by (rule finish_plain)
  from org keys full show ?thesis by simp
qed

theorem organize_df_quarterly_witness:
  "quarterly_key (''2021'', ''Q01'') \<and>
   plain \<lparr>columns = [''ENU0600010010''], rows = [((''2021'', ''Q01''), [Some (5::int)])]\<rparr> \<and>
   (\<exists>d. organize_df (datetime_other ex_world)
          \<lparr>columns = [''ENU0600010010''], rows = [((''2021'', ''Q01''), [Some (5::int)])]\<rparr> = Inr d \<and>
        map fst (rows d) = [''2021-01''] \<and>
        d = \<lparr>columns = [''ENU0600010010''], rows = [(''2021-01'', [Some 5])]\<rparr>)"
proof -
  let ?t = "\<lparr>columns = [''ENU0600010010''], rows = [((''2021'', ''Q01''), [Some (5::int)])]\<rparr>"
  have r: "rows ?t \<noteq> []" by simp
  have q: "quarterly_key (''2021'', ''Q01'')" by code_simp
  have m: "list_all (\<lambda>r. quarterly_key (fst r)) (rows ?t)"
    using q by simp
  have p: "plain ?t" by code_simp
  have s1: "sort (map (\<lambda>r. quarterly_date (fst r)) (rows ?t)) = [''2021-01'']"
    by code_simp
  have s2: "\<lparr>columns = columns ?t,
             rows = sort_key fst (map (\<lambda>r. (quarterly_date (fst r), snd r)) (rows ?t))\<rparr>
           = \<lparr>columns = [''ENU0600010010''], rows = [(''2021-01'', [Some (5::int)])]\<rparr>"
    by code_simp
  from organize_df_quarterly[OF r m, of "datetime_other ex_world"] p s1 s2
  have "\<exists>d. organize_df (datetime_other ex_world) ?t = Inr d \<and>
        map fst (rows d) = [''2021-01''] \<and>
        d = \<lparr>columns = [''ENU0600010010''], rows = [(''2021-01'', [Some 5])]\<rparr>"
    by auto
  with q p show ?thesis by blast
qed

text \<open>
  Claim C1, as the specification states it, fails: the month of the date key is not the
  digit of the quarter. The second quarter of 2021 gets the key \<open>2021-04\<close>, not
  \<open>2021-02\<close>.
\<close>

theorem quarter_digit_as_month_counterexample:
  "construct_df integer_parser
     [\<lparr>seriesID = ''ENU0600010010'', data = [obs ''2021'' ''Q02'' ''5'']\<rparr>]
     = Inr \<lparr>columns = [''ENU0600010010''], rows = [((''2021'', ''Q02''), [Some 5])]\<rparr> \<and>
   organize_df (datetime_other ex_world)
     \<lparr>columns = [''ENU0600010010''], rows = [((''2021'', ''Q02''), [Some (5::int)])]\<rparr>
     = Inr \<lparr>columns = [''ENU0600010010''], rows = [(''2021-04'', [Some 5])]\<rparr>"
  by code_simp

section \<open>The rows of the merged table\<close>



















end
